theory Spec2Isabelle
  imports Complex_Main
begin

section \<open>The logger of log.h\<close>

text \<open>
  The development follows \<^verbatim>\<open>src/log.h\<close>: the process-wide struct \<^verbatim>\<open>L\<close>, its five
  setters and \<^verbatim>\<open>log_log\<close>. C \<^verbatim>\<open>int\<close> values (levels, the quiet flag, line numbers) are
  HOL integers: the code only stores and compares them, so no arithmetic can wrap.
  Pointers are addresses, with \<^verbatim>\<open>0\<close> the null pointer.
  Every call the code makes to the outside (clocks, the mutex, the lock hook, the stdio
  functions) is recorded, in order, in a trace.
\<close>

subsection \<open>Data\<close>

type_synonym ptr = nat

definition NULL :: ptr where
  "NULL = 0"

text \<open>The anonymous enum of lines 36 to 38.\<close>

definition LOG_TRACE :: int where "LOG_TRACE = 0"
definition LOG_DEBUG :: int where "LOG_DEBUG = 1"
definition LOG_INFO :: int where "LOG_INFO = 2"
definition LOG_WARN :: int where "LOG_WARN = 3"
definition LOG_ERROR :: int where "LOG_ERROR = 4"
definition LOG_FATAL :: int where "LOG_FATAL = 5"

text \<open>The struct \<^verbatim>\<open>L\<close> of lines 42 to 48; \<^verbatim>\<open>lock\<close> is a function pointer.\<close>

record logger =
  udata :: ptr
  lock :: ptr
  fp :: ptr
  level :: int
  quiet :: int

text \<open>
  A static object is zero-initialised: null pointers and zero integers.
\<close>

definition L_init :: logger where
  "L_init = \<lparr>udata = NULL, lock = NULL, fp = NULL, level = 0, quiet = 0\<rparr>"

text \<open>
  The stream a stdio call addresses: \<^verbatim>\<open>stderr\<close>, or the handle held in \<^verbatim>\<open>L.fp\<close>.
\<close>

datatype stream = Stderr | File ptr

text \<open>
  The calls \<^verbatim>\<open>log_log\<close> makes to the outside: \<^verbatim>\<open>high_resolution_clock::now()\<close>, the
  acquisition and release of \<^verbatim>\<open>global_log_mutex\<close> by the \<^verbatim>\<open>unique_lock\<close>, the hook
  \<^verbatim>\<open>L.lock(L.udata, lock)\<close> (function pointer, user data, flag), \<^verbatim>\<open>time\<close>,
  \<^verbatim>\<open>localtime\<close>, \<^verbatim>\<open>fprintf\<close> with the text it produces, and \<^verbatim>\<open>fflush\<close>.
\<close>

datatype event =
  ClockNow
| MutexAcquire
| MutexRelease
| LockFn ptr ptr int
| Time
| Localtime
| Fprintf stream string
| Fflush stream

record world =
  L :: logger
  trace :: "event list"

definition emit :: "event \<Rightarrow> world \<Rightarrow> world" where
  "emit ev w = w\<lparr>trace := trace w @ [ev]\<rparr>"

text \<open>
  The fields of \<^verbatim>\<open>struct tm\<close> that the two \<^verbatim>\<open>strftime\<close> formats read, as
  \<^verbatim>\<open>localtime\<close> fills them (it is taken to succeed): none is negative.
\<close>

record tm =
  tm_sec :: nat
  tm_min :: nat
  tm_hour :: nat
  tm_mday :: nat
  tm_mon :: nat
  tm_year :: nat

text \<open>
  Double arithmetic is not computed here. The operations on \<^verbatim>\<open>double\<close> that the code
  uses are parameters: the conversion of the \<^verbatim>\<open>long long\<close> count, the double a decimal
  literal of a given value denotes, the division, and the conversion \<^verbatim>\<open>%.6lf\<close>.
\<close>

record 'd fpu =
  of_int64 :: "int \<Rightarrow> 'd"
  of_literal :: "rat \<Rightarrow> 'd"
  fdiv :: "'d \<Rightarrow> 'd \<Rightarrow> 'd"
  printf_6lf :: "'d \<Rightarrow> string"

text \<open>
  What one call of \<^verbatim>\<open>log_log\<close> gets from outside the logger: whether the file was
  compiled with \<^verbatim>\<open>LOG_USE_COLOR\<close>, the double operations, the nanosecond count of
  \<^verbatim>\<open>clock_now\<close>, and the broken-down time \<^verbatim>\<open>*lt\<close>.
\<close>

record 'd sys =
  LOG_USE_COLOR :: bool
  fl :: "'d fpu"
  clock_now :: int
  lt :: tm

text \<open>The variadic arguments after \<^verbatim>\<open>fmt\<close>.\<close>

datatype arg = IntArg int | StrArg string

datatype error = OutOfBounds

subsection \<open>Formatting\<close>

definition newline :: char where
  "newline = CHR 0x0A"

definition ESC :: char where
  "ESC = CHR 0x1B"

definition digit :: "nat \<Rightarrow> char" where
  "digit d = ''0123456789'' ! d"

fun show_nat :: "nat \<Rightarrow> string" where
  "show_nat n = (if n < 10 then [digit n] else show_nat (n div 10) @ [digit (n mod 10)])"

declare show_nat.simps [simp del]

text \<open>The conversion \<^verbatim>\<open>%d\<close>.\<close>

definition show_int :: "int \<Rightarrow> string" where
  "show_int i = (if i < 0 then CHR ''-'' # show_nat (nat (- i)) else show_nat (nat i))"

text \<open>The conversion \<^verbatim>\<open>%-5s\<close>: left-justified in a field of at least five characters.\<close>

definition pad5 :: "string \<Rightarrow> string" where
  "pad5 s = s @ replicate (5 - length s) CHR '' ''"

text \<open>
  The two-digit fields \<^verbatim>\<open>%H\<close>, \<^verbatim>\<open>%M\<close>, \<^verbatim>\<open>%S\<close>, \<^verbatim>\<open>%m\<close>, \<^verbatim>\<open>%d\<close> of \<^verbatim>\<open>strftime\<close>.
\<close>

definition two_digits :: "nat \<Rightarrow> string" where
  "two_digits n = (if n < 10 then CHR ''0'' # show_nat n else show_nat n)"

definition fmt_HMS :: "tm \<Rightarrow> string" where
  "fmt_HMS t = two_digits (tm_hour t) @ '':'' @ two_digits (tm_min t) @ '':''
     @ two_digits (tm_sec t)"

definition fmt_Ymd_HMS :: "tm \<Rightarrow> string" where
  "fmt_Ymd_HMS t = show_nat (tm_year t + 1900) @ ''-'' @ two_digits (tm_mon t + 1) @ ''-''
     @ two_digits (tm_mday t) @ '' '' @ fmt_HMS t"

text \<open>
  \<^verbatim>\<open>buf[strftime(buf, sizeof(buf), ...)] = '\0'\<close>: the string left in \<^verbatim>\<open>buf\<close>.
  \<^verbatim>\<open>strftime\<close> returns 0 when the text and its terminator do not fit, and the
  assignment then makes \<^verbatim>\<open>buf\<close> the empty string.
\<close>

definition strftime :: "nat \<Rightarrow> string \<Rightarrow> string" where
  "strftime maxsize s = (if length s < maxsize then s else [])"

text \<open>The tables of lines 52 to 60, and indexing them by an \<^verbatim>\<open>int\<close>.\<close>

definition level_names :: "string list" where
  "level_names = [''TRACE'', ''DEBUG'', ''INFO'', ''WARN'', ''ERROR'', ''FATAL'']"

definition level_colors :: "string list" where
  "level_colors = [ESC # ''[94m'', ESC # ''[36m'', ESC # ''[32m'', ESC # ''[33m'',
     ESC # ''[31m'', ESC # ''[35m'']"

definition index :: "'a list \<Rightarrow> int \<Rightarrow> error + 'a" where
  "index tbl i = (if 0 \<le> i \<and> i < int (length tbl) then Inr (tbl ! nat i)
     else Inl OutOfBounds)"

text \<open>
  The seconds printed in the \<^verbatim>\<open>ts\<close> field: \<^verbatim>\<open>count() / 1e9\<close> on the console (line 118
  or 121) and \<^verbatim>\<open>count() / 1000000000.0\<close> in the file (line 131).
\<close>

definition ts_console :: "'d fpu \<Rightarrow> int \<Rightarrow> 'd" where
  "ts_console f n = fdiv f (of_int64 f n) (of_literal f (1 * 10 ^ 9))"

definition ts_file :: "'d fpu \<Rightarrow> int \<Rightarrow> 'd" where
  "ts_file f n = fdiv f (of_int64 f n) (of_literal f 1000000000.0)"

text \<open>The \<^verbatim>\<open>ts\<close> field of each sink: the seconds printed with \<^verbatim>\<open>%.6lf\<close>.\<close>

definition ts_field_console :: "'d sys \<Rightarrow> string" where
  "ts_field_console s = printf_6lf (fl s) (ts_console (fl s) (clock_now s))"

definition ts_field_file :: "'d sys \<Rightarrow> string" where
  "ts_field_file s = printf_6lf (fl s) (ts_file (fl s) (clock_now s))"

text \<open>The text of the first \<^verbatim>\<open>fprintf\<close> of each branch, given the table entries.\<close>

definition console_text ::
  "'d sys \<Rightarrow> string \<Rightarrow> string \<Rightarrow> string \<Rightarrow> string \<Rightarrow> int \<Rightarrow> string" where
  "console_text s buf color name file line =
     (if LOG_USE_COLOR s
      then buf @ '' '' @ color @ pad5 name @ ESC # ''[0m '' @ ESC # ''[90m(ts: ''
        @ ts_field_console s @ '') '' @ file @ '':''
        @ show_int line @ '':'' @ ESC # ''[0m ''
      else buf @ '' '' @ pad5 name @ '' (ts: ''
        @ ts_field_console s @ '') '' @ file @ '':''
        @ show_int line @ '': '')"

definition file_text :: "'d sys \<Rightarrow> string \<Rightarrow> string \<Rightarrow> string \<Rightarrow> int \<Rightarrow> string" where
  "file_text s buf name file line =
     buf @ '' '' @ pad5 name @ '' (ts: ''
       @ ts_field_file s @ '') '' @ file @ '':''
       @ show_int line @ '': ''"

subsection \<open>Operations\<close>

text \<open>
  \<^verbatim>\<open>lock()\<close> and \<^verbatim>\<open>unlock()\<close>, lines 62 to 72 (\<^verbatim>\<open>lock\<close> is the field's name here).
\<close>

definition lock_call :: "world \<Rightarrow> world" where
  "lock_call w = (if lock (L w) \<noteq> NULL then emit (LockFn (lock (L w)) (udata (L w)) 1) w
     else w)"

definition unlock :: "world \<Rightarrow> world" where
  "unlock w = (if lock (L w) \<noteq> NULL then emit (LockFn (lock (L w)) (udata (L w)) 0) w
     else w)"

definition log_set_udata :: "ptr \<Rightarrow> world \<Rightarrow> world" where
  "log_set_udata u w = w\<lparr>L := (L w)\<lparr>udata := u\<rparr>\<rparr>"

definition log_set_lock :: "ptr \<Rightarrow> world \<Rightarrow> world" where
  "log_set_lock fn w = w\<lparr>L := (L w)\<lparr>lock := fn\<rparr>\<rparr>"

definition log_set_fp :: "ptr \<Rightarrow> world \<Rightarrow> world" where
  "log_set_fp p w = w\<lparr>L := (L w)\<lparr>fp := p\<rparr>\<rparr>"

definition log_set_level :: "int \<Rightarrow> world \<Rightarrow> world" where
  "log_set_level lvl w = w\<lparr>L := (L w)\<lparr>level := lvl\<rparr>\<rparr>"

definition log_set_quiet :: "int \<Rightarrow> world \<Rightarrow> world" where
  "log_set_quiet enable w = w\<lparr>L := (L w)\<lparr>quiet := (if enable \<noteq> 0 then 1 else 0)\<rparr>\<rparr>"

text \<open>
  The block \<^verbatim>\<open>if (!L.quiet) { ... }\<close> of lines 111 to 124. Under \<^verbatim>\<open>LOG_USE_COLOR\<close> the
  arguments \<^verbatim>\<open>level_colors[level]\<close> and \<^verbatim>\<open>level_names[level]\<close> are both read; otherwise
  only the name is. A read outside a table is the error \<open>OutOfBounds\<close>.
\<close>

definition log_stderr :: "'d sys \<Rightarrow> int \<Rightarrow> string \<Rightarrow> int \<Rightarrow> world \<Rightarrow> error + world" where
  "log_stderr s lvl file line w =
     (if quiet (L w) = 0 then
        let buf = strftime 16 (fmt_HMS (lt s)) in
        (case (if LOG_USE_COLOR s then index level_colors lvl else Inr []) of
           Inl e \<Rightarrow> Inl e
         | Inr color \<Rightarrow>
             (case index level_names lvl of
                Inl e \<Rightarrow> Inl e
              | Inr name \<Rightarrow>
                  Inr (emit (Fprintf Stderr [newline])
                    (emit (Fprintf Stderr (console_text s buf color name file line)) w))))
      else Inr w)"

text \<open>The block \<^verbatim>\<open>if (L.fp) { ... }\<close> of lines 127 to 134.\<close>

definition log_file :: "'d sys \<Rightarrow> int \<Rightarrow> string \<Rightarrow> int \<Rightarrow> world \<Rightarrow> error + world" where
  "log_file s lvl file line w =
     (if fp (L w) \<noteq> NULL then
        let buf = strftime 32 (fmt_Ymd_HMS (lt s)) in
        (case index level_names lvl of
           Inl e \<Rightarrow> Inl e
         | Inr name \<Rightarrow>
             Inr (emit (Fflush (File (fp (L w))))
               (emit (Fprintf (File (fp (L w))) [newline])
                 (emit (Fprintf (File (fp (L w))) (file_text s buf name file line)) w))))
      else Inr w)"

text \<open>
  \<^verbatim>\<open>log_log\<close>, lines 94 to 139. The format string and the variadic arguments are
  parameters, as in the source, and as in the source nothing reads them.
\<close>

definition log_log ::
  "'d sys \<Rightarrow> int \<Rightarrow> string \<Rightarrow> int \<Rightarrow> string \<Rightarrow> arg list \<Rightarrow> world \<Rightarrow> error + world" where
  "log_log s lvl file line fmt args w =
     (if lvl < level (L w) then Inr w
      else
        let w1 = emit ClockNow w;
            w2 = emit MutexAcquire w1;
            w3 = lock_call w2;
            w4 = emit Localtime (emit Time w3)
        in (case log_stderr s lvl file line w4 of
              Inl e \<Rightarrow> Inl e
            | Inr w5 \<Rightarrow>
                (case log_file s lvl file line w5 of
                   Inl e \<Rightarrow> Inl e
                 | Inr w6 \<Rightarrow> Inr (emit MutexRelease (unlock w6)))))"

subsection \<open>Sequences of calls\<close>

text \<open>
  A program using the logger calls its six functions in some order. A call that reads
  outside a table has no defined result, and the run stops there.
\<close>

datatype 'd call =
  Set_udata ptr
| Set_lock ptr
| Set_fp ptr
| Set_level int
| Set_quiet int
| Log "'d sys" int string int string "arg list"

fun step :: "'d call \<Rightarrow> world \<Rightarrow> error + world" where
  "step (Set_udata u) w = Inr (log_set_udata u w)"
| "step (Set_lock fn) w = Inr (log_set_lock fn w)"
| "step (Set_fp p) w = Inr (log_set_fp p w)"
| "step (Set_level lvl) w = Inr (log_set_level lvl w)"
| "step (Set_quiet enable) w = Inr (log_set_quiet enable w)"
| "step (Log s lvl file line fmt args) w = log_log s lvl file line fmt args w"

fun run :: "'d call list \<Rightarrow> world \<Rightarrow> error + world" where
  "run [] w = Inr w"
| "run (c # cs) w = (case step c w of Inl e \<Rightarrow> Inl e | Inr w' \<Rightarrow> run cs w')"

text \<open>The calls that only configure, and the one that writes \<^verbatim>\<open>L.quiet\<close>.\<close>

fun is_setter :: "'d call \<Rightarrow> bool" where
  "is_setter (Log _ _ _ _ _ _) = False"
| "is_setter _ = True"

fun is_set_quiet :: "'d call \<Rightarrow> bool" where
  "is_set_quiet (Set_quiet _) = True"
| "is_set_quiet _ = False"

text \<open>The process at its start: the zero-initialised \<^verbatim>\<open>L\<close> and nothing done yet.\<close>

definition start :: world where
  "start = \<lparr>L = L_init, trace = []\<rparr>"

subsection \<open>Reading a trace\<close>

text \<open>The bytes a trace sends to a stream: the texts of its \<^verbatim>\<open>fprintf\<close> calls, in order.\<close>

fun written :: "stream \<Rightarrow> event list \<Rightarrow> string" where
  "written st [] = []"
| "written st (Fprintf st' txt # es) =
     (if st' = st then txt @ written st es else written st es)"
| "written st (_ # es) = written st es"

text \<open>
  The bytes of a stream that no \<^verbatim>\<open>fflush\<close> has followed yet, starting from \<open>acc\<close>.
\<close>

fun unflushed :: "stream \<Rightarrow> event list \<Rightarrow> string \<Rightarrow> string" where
  "unflushed st [] acc = acc"
| "unflushed st (Fprintf st' txt # es) acc =
     unflushed st es (if st' = st then acc @ txt else acc)"
| "unflushed st (Fflush st' # es) acc = unflushed st es (if st' = st then [] else acc)"
| "unflushed st (_ # es) acc = unflushed st es acc"

text \<open>The stdio calls among the events.\<close>

fun is_write :: "event \<Rightarrow> bool" where
  "is_write (Fprintf _ _) = True"
| "is_write (Fflush _) = True"
| "is_write _ = False"

text \<open>The events the hook adds when \<^verbatim>\<open>lock()\<close> or \<^verbatim>\<open>unlock()\<close> runs in state \<open>l\<close>.\<close>

definition hook_events :: "logger \<Rightarrow> int \<Rightarrow> event list" where
  "hook_events l flag = (if lock l \<noteq> NULL then [LockFn (lock l) (udata l) flag] else [])"

text \<open>The stdio calls of a trace that address a given stream.\<close>

fun addresses :: "stream \<Rightarrow> event \<Rightarrow> bool" where
  "addresses st (Fprintf st' _) = (st' = st)"
| "addresses st (Fflush st') = (st' = st)"
| "addresses st _ = False"

definition calls_on :: "stream \<Rightarrow> event list \<Rightarrow> event list" where
  "calls_on st tr = filter (addresses st) tr"

text \<open>
  The line each sink receives for a level within the tables: the text of the first
  \<^verbatim>\<open>fprintf\<close>, and then the newline of the second.
\<close>

definition console_head :: "'d sys \<Rightarrow> int \<Rightarrow> string \<Rightarrow> int \<Rightarrow> string" where
  "console_head s lvl file line =
     console_text s (strftime 16 (fmt_HMS (lt s)))
       (if LOG_USE_COLOR s then level_colors ! nat lvl else [])
       (level_names ! nat lvl) file line"

definition console_line :: "'d sys \<Rightarrow> int \<Rightarrow> string \<Rightarrow> int \<Rightarrow> string" where
  "console_line s lvl file line = console_head s lvl file line @ [newline]"

definition file_head :: "'d sys \<Rightarrow> int \<Rightarrow> string \<Rightarrow> int \<Rightarrow> string" where
  "file_head s lvl file line =
     file_text s (strftime 32 (fmt_Ymd_HMS (lt s))) (level_names ! nat lvl) file line"

definition file_line :: "'d sys \<Rightarrow> int \<Rightarrow> string \<Rightarrow> int \<Rightarrow> string" where
  "file_line s lvl file line = file_head s lvl file line @ [newline]"

text \<open>The stdio calls of the two branches of \<^verbatim>\<open>log_log\<close> in state \<open>l\<close>.\<close>

definition console_events :: "'d sys \<Rightarrow> int \<Rightarrow> string \<Rightarrow> int \<Rightarrow> logger \<Rightarrow> event list" where
  "console_events s lvl file line l =
     (if quiet l = 0
      then [Fprintf Stderr (console_head s lvl file line), Fprintf Stderr [newline]]
      else [])"

definition file_events :: "'d sys \<Rightarrow> int \<Rightarrow> string \<Rightarrow> int \<Rightarrow> logger \<Rightarrow> event list" where
  "file_events s lvl file line l =
     (if fp l \<noteq> NULL
      then [Fprintf (File (fp l)) (file_head s lvl file line), Fprintf (File (fp l)) [newline],
            Fflush (File (fp l))]
      else [])"

text \<open>The invariant of \<^verbatim>\<open>L.quiet\<close>: it holds 0 or 1.\<close>

definition quiet_ok :: "world \<Rightarrow> bool" where
  "quiet_ok w = (quiet (L w) = 0 \<or> quiet (L w) = 1)"

text \<open>Everything one emitted call adds to the trace, for a level within the tables.\<close>

definition call_events :: "'d sys \<Rightarrow> int \<Rightarrow> string \<Rightarrow> int \<Rightarrow> logger \<Rightarrow> event list" where
  "call_events s lvl file line l =
     [ClockNow, MutexAcquire] @ hook_events l 1 @ [Time, Localtime]
       @ console_events s lvl file line l @ file_events s lvl file line l
       @ hook_events l 0 @ [MutexRelease]"

text \<open>
  A stand-in for the double operations, for evaluating the model at concrete inputs:
  exact fractions of integers (numerator, denominator), printed rounded to six decimals.
  It is not IEEE arithmetic; no theorem below depends on which operations are supplied.
\<close>

definition six_digits :: "nat \<Rightarrow> string" where
  "six_digits n = drop (length (show_nat n)) ''000000'' @ show_nat n"

definition show_6lf :: "int \<times> int \<Rightarrow> string" where
  "show_6lf q =
     (let m = (2 * 1000000 * fst q + snd q) div (2 * snd q)
      in (if m < 0 then ''-'' else []) @ show_nat (nat \<bar>m\<bar> div 1000000) @ ''.''
           @ six_digits (nat \<bar>m\<bar> mod 1000000))"

definition exact_fpu :: "(int \<times> int) fpu" where
  "exact_fpu = \<lparr>of_int64 = (\<lambda>n. (n, 1)), of_literal = quotient_of,
     fdiv = (\<lambda>a b. (fst a * snd b, snd a * fst b)), printf_6lf = show_6lf\<rparr>"

text \<open>A concrete environment: no colour, 1.5 seconds on the clock, 12:34:56 on 2 November 2026.\<close>

definition sys0 :: "(int \<times> int) sys" where
  "sys0 = \<lparr>LOG_USE_COLOR = False, fl = exact_fpu, clock_now = 1500000000,
     lt = \<lparr>tm_sec = 56, tm_min = 34, tm_hour = 12, tm_mday = 2, tm_mon = 10, tm_year = 126\<rparr>\<rparr>"

section \<open>Properties\<close>

subsection \<open>Evaluation at concrete inputs\<close>

lemma show_nat_0: "show_nat 0 = ''0''"
  by (simp add: show_nat.simps digit_def)

lemma show_nat_1: "show_nat (Suc 0) = ''1''"
  by (simp add: show_nat.simps digit_def)

lemma show_nat_numeral:
  "show_nat (numeral k) =
     (if (numeral k :: nat) < 10 then [digit (numeral k)]
      else show_nat (numeral k div 10) @ [digit (numeral k mod 10)])"
  by (rule show_nat.simps)

lemmas eval_fmt = show_nat_0 show_nat_1 show_nat_numeral digit_def show_int_def pad5_def
  two_digits_def fmt_HMS_def fmt_Ymd_HMS_def strftime_def show_6lf_def six_digits_def Let_def
  ts_field_console_def ts_field_file_def ts_console_def ts_file_def exact_fpu_def
  console_text_def file_text_def level_names_def level_colors_def

lemmas eval_log = log_log_def log_stderr_def log_file_def lock_call_def unlock_def emit_def
  index_def log_set_udata_def log_set_lock_def log_set_fp_def log_set_level_def
  log_set_quiet_def start_def L_init_def NULL_def LOG_TRACE_def LOG_DEBUG_def LOG_INFO_def
  LOG_WARN_def LOG_ERROR_def LOG_FATAL_def

subsection \<open>The shape of a call\<close>

lemma index_level_names:
  "0 \<le> lvl \<Longrightarrow> lvl \<le> 5 \<Longrightarrow> index level_names lvl = Inr (level_names ! nat lvl)"
  by (simp add: index_def level_names_def)

lemma index_level_colors:
  "0 \<le> lvl \<Longrightarrow> lvl \<le> 5 \<Longrightarrow> index level_colors lvl = Inr (level_colors ! nat lvl)"
  by (simp add: index_def level_colors_def)

lemma index_level_names_out:
  "lvl < 0 \<or> 5 < lvl \<Longrightarrow> index level_names lvl = Inl OutOfBounds"
  by (auto simp add: index_def level_names_def)

lemma log_stderr_in_range:
  assumes "0 \<le> lvl" and "lvl \<le> 5"
  shows "log_stderr s lvl file line w =
    Inr (w\<lparr>trace := trace w @ console_events s lvl file line (L w)\<rparr>)"
  using assms
  by (simp add: log_stderr_def index_level_names index_level_colors console_events_def
      console_head_def emit_def)

lemma log_file_in_range:
  assumes "0 \<le> lvl" and "lvl \<le> 5"
  shows "log_file s lvl file line w =
    Inr (w\<lparr>trace := trace w @ file_events s lvl file line (L w)\<rparr>)"
  using assms
  by (simp add: log_file_def index_level_names file_events_def file_head_def emit_def)

lemma lock_call_trace: "lock_call w = w\<lparr>trace := trace w @ hook_events (L w) 1\<rparr>"
  by (simp add: lock_call_def hook_events_def emit_def)

lemma unlock_trace: "unlock w = w\<lparr>trace := trace w @ hook_events (L w) 0\<rparr>"
  by (simp add: unlock_def hook_events_def emit_def)

lemma log_log_emitted:
  assumes "\<not> lvl < level (L w)" and "0 \<le> lvl" and "lvl \<le> 5"
  shows "log_log s lvl file line fmt args w =
    Inr (w\<lparr>trace := trace w @ call_events s lvl file line (L w)\<rparr>)"
  using assms
  by (simp add: log_log_def log_stderr_in_range log_file_in_range lock_call_trace unlock_trace
      emit_def call_events_def)

lemma log_log_below: "lvl < level (L w) \<Longrightarrow> log_log s lvl file line fmt args w = Inr w"
  by (simp add: log_log_def)

text \<open>\<^verbatim>\<open>log_log\<close> does not write \<^verbatim>\<open>L\<close>.\<close>

lemma log_stderr_L: "log_stderr s lvl file line w = Inr w' \<Longrightarrow> L w' = L w"
  by (auto simp add: log_stderr_def emit_def Let_def split: if_splits sum.splits)

lemma log_file_L: "log_file s lvl file line w = Inr w' \<Longrightarrow> L w' = L w"
  by (auto simp add: log_file_def emit_def Let_def split: if_splits sum.splits)

lemma log_log_L:
  assumes "log_log s lvl file line fmt args w = Inr w'"
  shows "L w' = L w"
proof (cases "lvl < level (L w)")
  case True
  with assms show ?thesis by (simp add: log_log_def)
next
  case False
  let ?w4 = "emit Localtime (emit Time (lock_call (emit MutexAcquire (emit ClockNow w))))"
  have L4: "L ?w4 = L w"
    by (simp add: emit_def lock_call_def)
  from assms False obtain w5 w6 where
    w5: "log_stderr s lvl file line ?w4 = Inr w5" and
    w6: "log_file s lvl file line w5 = Inr w6" and
    w': "w' = emit MutexRelease (unlock w6)"
    by (auto simp add: log_log_def Let_def split: sum.splits)
  from w5 w6 L4 have "L w6 = L w"
    by (simp add: log_stderr_L log_file_L)
  with w' show ?thesis
    by (simp add: emit_def unlock_def)
qed

lemma step_quiet_ok:
  assumes "quiet_ok w" and "step c w = Inr w'"
  shows "quiet_ok w'"
proof (cases c)
  case (Log s lvl fname line fmt args)
  with assms(2) have "L w' = L w"
    by (simp add: log_log_L)
  with assms(1) show ?thesis
    by (simp add: quiet_ok_def)
qed (use assms in \<open>auto simp add: quiet_ok_def log_set_udata_def log_set_lock_def
  log_set_fp_def log_set_level_def log_set_quiet_def split: if_splits\<close>)

lemma run_quiet_ok: "quiet_ok w \<Longrightarrow> run cs w = Inr w' \<Longrightarrow> quiet_ok w'"
proof (induction cs arbitrary: w)
  case Nil
  then show ?case by simp
next
  case (Cons c cs)
  from Cons.prems(2) obtain w1 where w1: "step c w = Inr w1" and rest: "run cs w1 = Inr w'"
    by (auto split: sum.splits)
  from step_quiet_ok [OF Cons.prems(1) w1] have "quiet_ok w1" .
  from Cons.IH [OF this rest] show ?case .
qed

lemma step_keeps_quiet:
  assumes "\<not> is_set_quiet c" and "step c w = Inr w'"
  shows "quiet (L w') = quiet (L w)"
proof (cases c)
  case (Log s lvl fname line fmt args)
  with assms(2) show ?thesis
    by (simp add: log_log_L)
qed (use assms in \<open>auto simp add: log_set_udata_def log_set_lock_def log_set_fp_def
  log_set_level_def\<close>)

text \<open>A level outside the tables.\<close>

lemma index_level_colors_out:
  "lvl < 0 \<or> 5 < lvl \<Longrightarrow> index level_colors lvl = Inl OutOfBounds"
  by (auto simp add: index_def level_colors_def)

lemma log_stderr_out_of_range:
  "lvl < 0 \<or> 5 < lvl \<Longrightarrow>
     log_stderr s lvl file line w = (if quiet (L w) = 0 then Inl OutOfBounds else Inr w)"
  by (simp add: log_stderr_def index_level_names_out index_level_colors_out)

lemma log_file_out_of_range:
  "lvl < 0 \<or> 5 < lvl \<Longrightarrow>
     log_file s lvl file line w = (if fp (L w) \<noteq> NULL then Inl OutOfBounds else Inr w)"
  by (simp add: log_file_def index_level_names_out)

lemma log_log_out_of_range:
  assumes "lvl < 0 \<or> 5 < lvl" and "\<not> lvl < level (L w)"
  shows "log_log s lvl file line fmt args w =
    (if quiet (L w) = 0 \<or> fp (L w) \<noteq> NULL then Inl OutOfBounds
     else Inr (w\<lparr>trace := trace w @ [ClockNow, MutexAcquire] @ hook_events (L w) 1
       @ [Time, Localtime] @ hook_events (L w) 0 @ [MutexRelease]\<rparr>))"
  using assms(2)
  by (simp add: log_log_def Let_def log_stderr_out_of_range [OF assms(1)]
      log_file_out_of_range [OF assms(1)] lock_call_trace unlock_trace emit_def)


subsection \<open>Reading the trace of a call\<close>

lemma calls_on_append: "calls_on st (a @ b) = calls_on st a @ calls_on st b"
  by (simp add: calls_on_def)

lemma calls_on_hook_events: "calls_on st (hook_events l flag) = []"
  by (simp add: calls_on_def hook_events_def)

lemma calls_on_console_events:
  "calls_on st (console_events s lvl file line l) =
     (if st = Stderr then console_events s lvl file line l else [])"
  by (simp add: calls_on_def console_events_def)

lemma calls_on_file_events:
  "calls_on st (file_events s lvl file line l) =
     (if st = File (fp l) then file_events s lvl file line l else [])"
  by (auto simp add: calls_on_def file_events_def)

lemma calls_on_call_events:
  "calls_on st (call_events s lvl file line l) =
     calls_on st (console_events s lvl file line l) @ calls_on st (file_events s lvl file line l)"
  by (simp add: call_events_def calls_on_def hook_events_def)

lemma written_append: "written st (a @ b) = written st a @ written st b"
  by (induction st a rule: written.induct) simp_all

lemma written_hook_events: "written st (hook_events l flag) = []"
  by (simp add: hook_events_def)

lemma written_console_events:
  "written st (console_events s lvl file line l) =
     (if st = Stderr \<and> quiet l = 0 then console_line s lvl file line else [])"
  by (simp add: console_events_def console_line_def)

lemma written_file_events:
  "written st (file_events s lvl file line l) =
     (if fp l \<noteq> NULL \<and> st = File (fp l) then file_line s lvl file line else [])"
  by (simp add: file_events_def file_line_def)

lemma written_call_events:
  "written st (call_events s lvl file line l) =
     written st (console_events s lvl file line l) @ written st (file_events s lvl file line l)"
  by (simp add: call_events_def written_append written_hook_events)

lemma unflushed_append: "unflushed st (a @ b) acc = unflushed st b (unflushed st a acc)"
  by (induction st a acc rule: unflushed.induct) simp_all

lemma unflushed_call_events:
  "fp l \<noteq> NULL \<Longrightarrow> unflushed (File (fp l)) (call_events s lvl file line l) acc = []"
  by (simp add: call_events_def unflushed_append hook_events_def console_events_def
      file_events_def)

lemma count_ClockNow_call_events: "count_list (call_events s lvl file line l) ClockNow = 1"
  by (simp add: call_events_def hook_events_def console_events_def file_events_def)

subsection \<open>No newline inside a line\<close>

lemma digit_not_newline: "d < 10 \<Longrightarrow> newline \<noteq> digit d"
proof -
  assume "d < 10"
  then have "digit d \<in> set ''0123456789''"
    unfolding digit_def by (intro nth_mem) simp
  then show ?thesis
    by (auto simp add: newline_def)
qed

lemma show_nat_no_newline: "newline \<notin> set (show_nat n)"
proof (induction n rule: show_nat.induct)
  case (1 n)
  show ?case
  proof (cases "n < 10")
    case True
    then show ?thesis
      by (subst show_nat.simps) (simp add: digit_not_newline)
  next
    case False
    with 1 have "newline \<notin> set (show_nat (n div 10))" by simp
    moreover have "newline \<noteq> digit (n mod 10)"
      by (rule digit_not_newline) simp
    ultimately show ?thesis
      using False by (subst show_nat.simps) auto
  qed
qed

lemma show_int_no_newline: "newline \<notin> set (show_int i)"
  by (simp add: show_int_def show_nat_no_newline) (simp add: newline_def)

lemma two_digits_no_newline: "newline \<notin> set (two_digits n)"
  by (simp add: two_digits_def show_nat_no_newline) (simp add: newline_def)

lemma fmt_HMS_no_newline: "newline \<notin> set (fmt_HMS t)"
  by (simp add: fmt_HMS_def two_digits_no_newline) (simp add: newline_def)

lemma fmt_Ymd_HMS_no_newline: "newline \<notin> set (fmt_Ymd_HMS t)"
  by (simp add: fmt_Ymd_HMS_def two_digits_no_newline show_nat_no_newline fmt_HMS_no_newline)
    (simp add: newline_def)

lemma strftime_no_newline: "newline \<notin> set txt \<Longrightarrow> newline \<notin> set (strftime n txt)"
  by (simp add: strftime_def)

lemma level_name_no_newline:
  assumes "0 \<le> lvl" and "lvl \<le> 5"
  shows "newline \<notin> set (pad5 (level_names ! nat lvl))"
proof -
  from assms have "nat lvl < length level_names"
    by (simp add: level_names_def)
  then have "level_names ! nat lvl \<in> set level_names"
    by (rule nth_mem)
  then have "newline \<notin> set (level_names ! nat lvl)"
    by (auto simp add: level_names_def newline_def)
  then show ?thesis
    by (auto simp add: pad5_def newline_def)
qed

lemma level_color_no_newline:
  assumes "0 \<le> lvl" and "lvl \<le> 5"
  shows "newline \<notin> set (level_colors ! nat lvl)"
proof -
  from assms have "nat lvl < length level_colors"
    by (simp add: level_colors_def)
  then have "level_colors ! nat lvl \<in> set level_colors"
    by (rule nth_mem)
  then show ?thesis
    by (auto simp add: level_colors_def newline_def ESC_def)
qed

lemma console_head_no_newline:
  assumes "0 \<le> lvl" and "lvl \<le> 5" and "newline \<notin> set file"
    and "newline \<notin> set (ts_field_console s)"
  shows "newline \<notin> set (console_head s lvl file line)"
proof -
  have buf: "newline \<notin> set (strftime 16 (fmt_HMS (lt s)))"
    by (simp add: strftime_no_newline fmt_HMS_no_newline)
  have lit: "newline \<noteq> ESC" "newline \<noteq> CHR '' ''" "newline \<noteq> CHR ''[''" "newline \<noteq> CHR ''0''"
    "newline \<noteq> CHR ''m''" "newline \<noteq> CHR ''9''" "newline \<noteq> CHR ''(''" "newline \<noteq> CHR ''t''"
    "newline \<noteq> CHR ''s''" "newline \<noteq> CHR '':''" "newline \<noteq> CHR '')''"
    by (simp_all add: newline_def ESC_def)
  from assms buf lit show ?thesis
    by (simp add: console_head_def console_text_def level_name_no_newline
        level_color_no_newline show_int_no_newline)
qed

lemma file_head_no_newline:
  assumes "0 \<le> lvl" and "lvl \<le> 5" and "newline \<notin> set file"
    and "newline \<notin> set (ts_field_file s)"
  shows "newline \<notin> set (file_head s lvl file line)"
proof -
  have buf: "newline \<notin> set (strftime 32 (fmt_Ymd_HMS (lt s)))"
    by (simp add: strftime_no_newline fmt_Ymd_HMS_no_newline)
  have lit: "newline \<noteq> CHR '' ''" "newline \<noteq> CHR ''(''" "newline \<noteq> CHR ''t''"
    "newline \<noteq> CHR ''s''" "newline \<noteq> CHR '':''" "newline \<noteq> CHR '')''"
    by (simp_all add: newline_def)
  from assms buf lit show ?thesis
    by (simp add: file_head_def file_text_def level_name_no_newline show_int_no_newline)
qed


subsection \<open>The two divisors\<close>

lemma ts_console_eq_ts_file: "ts_console f n = ts_file f n"
proof -
  have "(1 * 10 ^ 9 :: rat) = 1000000000.0"
    by simp
  then show ?thesis
    by (simp add: ts_console_def ts_file_def)
qed


subsection \<open>Unused parameters\<close>

lemma log_log_ignores_message:
  "log_log s lvl file line fmt args w = log_log s lvl file line fmt' args' w"
  by (simp add: log_log_def)

subsection \<open>The message\<close>

text \<open>
  Claim C1: an emitted line ends with the format string expanded with its arguments, so
  that \<^verbatim>\<open>log(Warn, "a.cpp", 11, "x=%d", 5)\<close> with threshold Info and quiet off prints a
  console line whose message part is \<^verbatim>\<open>x=5\<close>.
  The code does not do so: \<^verbatim>\<open>log_log\<close> never reads \<^verbatim>\<open>fmt\<close> or the arguments after it
  (\<open>log_log_ignores_message\<close>), and at this very input the console line stops after
  \<^verbatim>\<open>a.cpp:11: \<close>, followed by the newline.
\<close>

theorem log_log_drops_message:
  "log_log sys0 LOG_WARN ''a.cpp'' 11 ''x=%d'' [IntArg 5] (log_set_level LOG_INFO start) =
     Inr \<lparr>L = L_init\<lparr>level := LOG_INFO\<rparr>,
          trace = [ClockNow, MutexAcquire, Time, Localtime,
            Fprintf Stderr ''12:34:56 WARN  (ts: 1.500000) a.cpp:11: '',
            Fprintf Stderr [newline], MutexRelease]\<rparr>"
  by (simp add: eval_log sys0_def eval_fmt)

subsection \<open>Suppressed calls\<close>

text \<open>
  Claim C2: a call whose level is strictly below the threshold returns at once and has no
  effect. The world it returns is the one it was given: the trace gains no event (no
  clock or time query, no mutex acquisition, no hook call, no write) and \<^verbatim>\<open>L\<close> is
  unchanged.
\<close>

theorem log_log_suppressed:
  "lvl < level (L w) \<Longrightarrow> log_log s lvl file line fmt args w = Inr w"
  by (simp add: log_log_def)

theorem log_log_suppressed_witness:
  "LOG_DEBUG < level (L (log_set_level LOG_INFO start)) \<and>
   log_log sys0 LOG_DEBUG ''a.cpp'' 10 ''x=%d'' [IntArg 5] (log_set_level LOG_INFO start) =
     Inr (log_set_level LOG_INFO start)"
proof -
  have below: "LOG_DEBUG < level (L (log_set_level LOG_INFO start))"
    by (simp add: log_set_level_def LOG_DEBUG_def LOG_INFO_def)
  from log_log_suppressed [OF below] below show ?thesis
    by simp
qed

subsection \<open>The critical section\<close>

text \<open>
  Claim C3: an emitted call acquires the internal mutex, then calls the hook (if one is
  installed) once with flag 1, before any write to a sink; after all writes it calls the
  hook once with flag 0, and then releases the mutex. A suppressed call does not call the
  hook. Here \<open>hook_events l flag\<close> is the single hook call when \<^verbatim>\<open>L.lock\<close> is not null,
  and nothing otherwise; the stdio calls are exactly the events between the two.
\<close>

theorem log_log_lock_order:
  "(lvl < level (L w) \<longrightarrow> log_log s lvl file line fmt args w = Inr w) \<and>
   (\<not> lvl < level (L w) \<and> 0 \<le> lvl \<and> lvl \<le> 5 \<longrightarrow>
      log_log s lvl file line fmt args w =
        Inr (w\<lparr>trace := trace w @ [ClockNow, MutexAcquire] @ hook_events (L w) 1
          @ [Time, Localtime]
          @ (console_events s lvl file line (L w) @ file_events s lvl file line (L w))
          @ hook_events (L w) 0 @ [MutexRelease]\<rparr>) \<and>
      list_all is_write
        (console_events s lvl file line (L w) @ file_events s lvl file line (L w)))"
  by (simp add: log_log_below log_log_emitted call_events_def console_events_def
      file_events_def)

theorem log_log_lock_order_witness:
  "LOG_DEBUG < level (L (log_set_level LOG_INFO
     (log_set_udata 9 (log_set_lock 7 (log_set_fp 3 start))))) \<and>
   log_log sys0 LOG_DEBUG ''a.cpp'' 10 ''m'' []
       (log_set_level LOG_INFO (log_set_udata 9 (log_set_lock 7 (log_set_fp 3 start)))) =
     Inr (log_set_level LOG_INFO (log_set_udata 9 (log_set_lock 7 (log_set_fp 3 start)))) \<and>
   \<not> LOG_ERROR < level (L (log_set_level LOG_INFO
     (log_set_udata 9 (log_set_lock 7 (log_set_fp 3 start))))) \<and>
   0 \<le> LOG_ERROR \<and> LOG_ERROR \<le> 5 \<and>
   log_log sys0 LOG_ERROR ''a.cpp'' 10 ''m'' []
       (log_set_level LOG_INFO (log_set_udata 9 (log_set_lock 7 (log_set_fp 3 start)))) =
     Inr \<lparr>L = \<lparr>udata = 9, lock = 7, fp = 3, level = 2, quiet = 0\<rparr>,
       trace = [ClockNow, MutexAcquire, LockFn 7 9 1, Time, Localtime,
         Fprintf Stderr ''12:34:56 ERROR (ts: 1.500000) a.cpp:10: '', Fprintf Stderr [newline],
         Fprintf (File 3) ''2026-11-02 12:34:56 ERROR (ts: 1.500000) a.cpp:10: '',
         Fprintf (File 3) [newline], Fflush (File 3), LockFn 7 9 0, MutexRelease]\<rparr>"
  using
    log_log_lock_order [of LOG_DEBUG
      "log_set_level LOG_INFO (log_set_udata 9 (log_set_lock 7 (log_set_fp 3 start)))"
      sys0 "''a.cpp''" 10 "''m''" "[]"]
    log_log_lock_order [of LOG_ERROR
      "log_set_level LOG_INFO (log_set_udata 9 (log_set_lock 7 (log_set_fp 3 start)))"
      sys0 "''a.cpp''" 10 "''m''" "[]"]
  by (simp add: eval_log hook_events_def console_events_def file_events_def console_head_def
      file_head_def sys0_def eval_fmt)

subsection \<open>Quiet mode\<close>

text \<open>
  Claim C4: once \<^verbatim>\<open>log_set_quiet\<close> has been called with a nonzero value, an emitted call
  (any threshold, any level at or above it) makes no stdio call on \<^verbatim>\<open>stderr\<close> and writes
  no byte to it, while the stdio calls on the file sink are those of the same call with
  quiet off: the line, its newline and the flush on the handle in \<^verbatim>\<open>L.fp\<close> when there
  is one, and nothing when there is none.
\<close>

theorem log_log_quiet:
  assumes "enable \<noteq> 0" and "\<not> lvl < level (L w)" and "0 \<le> lvl" and "lvl \<le> 5"
  shows "\<exists>wq wl.
    log_log s lvl file line fmt args (log_set_quiet enable w) = Inr wq \<and>
    log_log s lvl file line fmt args (log_set_quiet 0 w) = Inr wl \<and>
    calls_on Stderr (trace wq) = calls_on Stderr (trace w) \<and>
    written Stderr (trace wq) = written Stderr (trace w) \<and>
    (\<forall>p. calls_on (File p) (trace wq) = calls_on (File p) (trace wl)) \<and>
    calls_on (File (fp (L w))) (trace wq) =
      calls_on (File (fp (L w))) (trace w) @ file_events s lvl file line (L w)"
proof -
  let ?q = "log_set_quiet enable w" and ?l = "log_set_quiet 0 w"
  have q: "log_log s lvl file line fmt args ?q =
      Inr (?q\<lparr>trace := trace ?q @ call_events s lvl file line (L ?q)\<rparr>)"
    using assms by (intro log_log_emitted) (simp_all add: log_set_quiet_def)
  have l: "log_log s lvl file line fmt args ?l =
      Inr (?l\<lparr>trace := trace ?l @ call_events s lvl file line (L ?l)\<rparr>)"
    using assms by (intro log_log_emitted) (simp_all add: log_set_quiet_def)
  have fe: "file_events s lvl file line (L ?q) = file_events s lvl file line (L w)"
    "file_events s lvl file line (L ?l) = file_events s lvl file line (L w)"
    by (simp_all add: file_events_def log_set_quiet_def)
  have ce: "console_events s lvl file line (L ?q) = []"
    using assms(1) by (simp add: console_events_def log_set_quiet_def)
  have tr: "trace ?q = trace w" "trace ?l = trace w"
    by (simp_all add: log_set_quiet_def)
  show ?thesis
    unfolding q l
    by (simp add: tr fe ce calls_on_append calls_on_call_events calls_on_console_events
        calls_on_file_events written_append written_call_events written_console_events
        written_file_events calls_on_def [of _ "[]"])
qed

theorem log_log_quiet_witness:
  "(1::int) \<noteq> 0 \<and> \<not> LOG_INFO < level (L (log_set_fp 3 start)) \<and> 0 \<le> LOG_INFO \<and> LOG_INFO \<le> 5 \<and>
   (\<exists>wq wl.
    log_log sys0 LOG_INFO ''a.cpp'' 7 ''m'' [] (log_set_quiet 1 (log_set_fp 3 start)) = Inr wq \<and>
    log_log sys0 LOG_INFO ''a.cpp'' 7 ''m'' [] (log_set_quiet 0 (log_set_fp 3 start)) = Inr wl \<and>
    calls_on Stderr (trace wq) = [] \<and>
    written Stderr (trace wq) = [] \<and>
    (\<forall>p. calls_on (File p) (trace wq) = calls_on (File p) (trace wl)) \<and>
    calls_on (File 3) (trace wq) =
      [Fprintf (File 3) ''2026-11-02 12:34:56 INFO  (ts: 1.500000) a.cpp:7: '',
       Fprintf (File 3) [newline], Fflush (File 3)])"
proof -
  have h: "(1::int) \<noteq> 0" "\<not> LOG_INFO < level (L (log_set_fp 3 start))" "0 \<le> LOG_INFO"
    "LOG_INFO \<le> 5"
    by (simp_all add: eval_log)
  have fe: "file_events sys0 LOG_INFO ''a.cpp'' 7 (L (log_set_fp 3 start)) =
      [Fprintf (File 3) ''2026-11-02 12:34:56 INFO  (ts: 1.500000) a.cpp:7: '',
       Fprintf (File 3) [newline], Fflush (File 3)]"
    by (simp add: file_events_def file_head_def eval_log sys0_def eval_fmt)
  have st: "trace (log_set_fp 3 start) = []" "fp (L (log_set_fp 3 start)) = 3"
    by (simp_all add: eval_log)
  from log_log_quiet [OF h, of sys0 "''a.cpp''" 7 "''m''" "[]"] h show ?thesis
    by (simp add: fe st calls_on_def)
qed

subsection \<open>One line per sink\<close>

text \<open>
  Claim C5: an emitted call writes exactly one line to the console, unless quiet is set,
  and exactly one line to the file sink, if one is configured, each ended by a single
  newline; the file sink is flushed after its line. The bytes a call adds to a
  stream are the text of the line and then one newline; after the call no byte of the
  file sink is left unflushed, whatever was pending before (\<open>acc\<close>). The
  text before the newline contains no newline of its own when the caller's file name
  and the printed seconds contain none (every other field is digits, a level name or
  fixed text).
\<close>

theorem log_log_one_line:
  assumes "\<not> lvl < level (L w)" and "0 \<le> lvl" and "lvl \<le> 5"
  shows "\<exists>w'.
    log_log s lvl file line fmt args w = Inr w' \<and>
    written Stderr (trace w') =
      written Stderr (trace w) @ (if quiet (L w) = 0 then console_line s lvl file line else []) \<and>
    (\<forall>p. written (File p) (trace w') =
      written (File p) (trace w)
        @ (if fp (L w) \<noteq> NULL \<and> p = fp (L w) then file_line s lvl file line else [])) \<and>
    (fp (L w) \<noteq> NULL \<longrightarrow> unflushed (File (fp (L w))) (trace w') acc = []) \<and>
    console_line s lvl file line = console_head s lvl file line @ [newline] \<and>
    file_line s lvl file line = file_head s lvl file line @ [newline] \<and>
    (newline \<notin> set file \<and> newline \<notin> set (ts_field_console s) \<longrightarrow>
       newline \<notin> set (console_head s lvl file line)) \<and>
    (newline \<notin> set file \<and> newline \<notin> set (ts_field_file s) \<longrightarrow>
       newline \<notin> set (file_head s lvl file line))"
proof -
  have "unflushed (File (fp (L w))) (trace w @ call_events s lvl file line (L w)) acc = []"
    if "fp (L w) \<noteq> NULL"
    using that by (simp add: unflushed_append unflushed_call_events)
  then show ?thesis
    using assms
    by (simp add: log_log_emitted written_append written_call_events written_console_events
        written_file_events console_line_def file_line_def console_head_no_newline
        file_head_no_newline)
qed

theorem log_log_one_line_witness:
  "\<not> LOG_INFO < level (L (log_set_fp 3 start)) \<and> 0 \<le> LOG_INFO \<and> LOG_INFO \<le> 5 \<and>
   fp (L (log_set_fp 3 start)) \<noteq> NULL \<and>
   newline \<notin> set ''a.cpp'' \<and> newline \<notin> set (ts_field_console sys0) \<and>
   newline \<notin> set (ts_field_file sys0) \<and>
   (\<exists>w'. log_log sys0 LOG_INFO ''a.cpp'' 7 ''m'' [] (log_set_fp 3 start) = Inr w' \<and>
      written Stderr (trace w') = ''12:34:56 INFO  (ts: 1.500000) a.cpp:7: '' @ [newline] \<and>
      written (File 3) (trace w') =
        ''2026-11-02 12:34:56 INFO  (ts: 1.500000) a.cpp:7: '' @ [newline] \<and>
      written (File 4) (trace w') = [] \<and>
      unflushed (File 3) (trace w') [] = [] \<and>
      newline \<notin> set (console_head sys0 LOG_INFO ''a.cpp'' 7) \<and>
      newline \<notin> set (file_head sys0 LOG_INFO ''a.cpp'' 7))"
proof -
  let ?w = "log_set_fp 3 start"
  have h: "\<not> LOG_INFO < level (L ?w)" "0 \<le> LOG_INFO" "LOG_INFO \<le> 5"
    by (simp_all add: eval_log)
  have st: "trace ?w = []" "fp (L ?w) = 3" "quiet (L ?w) = 0"
    by (simp_all add: eval_log)
  have ts: "ts_field_console sys0 = ''1.500000''" "ts_field_file sys0 = ''1.500000''"
    by (simp_all add: sys0_def eval_fmt)
  have lines:
    "console_line sys0 LOG_INFO ''a.cpp'' 7 =
       ''12:34:56 INFO  (ts: 1.500000) a.cpp:7: '' @ [newline]"
    "file_line sys0 LOG_INFO ''a.cpp'' 7 =
       ''2026-11-02 12:34:56 INFO  (ts: 1.500000) a.cpp:7: '' @ [newline]"
    by (simp_all add: console_line_def file_line_def console_head_def file_head_def
        LOG_INFO_def sys0_def eval_fmt)
  have nl: "newline \<notin> set ''a.cpp''" "newline \<notin> set (ts_field_console sys0)"
    "newline \<notin> set (ts_field_file sys0)"
    by (simp_all add: ts newline_def)
  from log_log_one_line [OF h, of sys0 "''a.cpp''" 7 "''m''" "[]" "[]"] obtain w' where
    r: "log_log sys0 LOG_INFO ''a.cpp'' 7 ''m'' [] ?w = Inr w'" and
    c: "written Stderr (trace w') = written Stderr (trace ?w)
          @ (if quiet (L ?w) = 0 then console_line sys0 LOG_INFO ''a.cpp'' 7 else [])" and
    f: "\<And>p. written (File p) (trace w') = written (File p) (trace ?w)
          @ (if fp (L ?w) \<noteq> NULL \<and> p = fp (L ?w) then file_line sys0 LOG_INFO ''a.cpp'' 7
             else [])" and
    u: "fp (L ?w) \<noteq> NULL \<longrightarrow> unflushed (File (fp (L ?w))) (trace w') [] = []" and
    n1: "newline \<notin> set ''a.cpp'' \<and> newline \<notin> set (ts_field_console sys0) \<longrightarrow>
           newline \<notin> set (console_head sys0 LOG_INFO ''a.cpp'' 7)" and
    n2: "newline \<notin> set ''a.cpp'' \<and> newline \<notin> set (ts_field_file sys0) \<longrightarrow>
           newline \<notin> set (file_head sys0 LOG_INFO ''a.cpp'' 7)"
    by blast
  have "written Stderr (trace w') = ''12:34:56 INFO  (ts: 1.500000) a.cpp:7: '' @ [newline]"
    using c by (simp add: st lines)
  moreover have "written (File 3) (trace w') =
      ''2026-11-02 12:34:56 INFO  (ts: 1.500000) a.cpp:7: '' @ [newline]"
    using f [of 3] by (simp add: st lines NULL_def)
  moreover have "written (File 4) (trace w') = []"
    using f [of 4] by (simp add: st)
  moreover have "unflushed (File 3) (trace w') [] = []"
    using u by (simp add: st NULL_def)
  moreover have "newline \<notin> set (console_head sys0 LOG_INFO ''a.cpp'' 7)"
    using n1 nl by blast
  moreover have "newline \<notin> set (file_head sys0 LOG_INFO ''a.cpp'' 7)"
    using n2 nl by blast
  moreover have "fp (L ?w) \<noteq> NULL"
    by (simp add: st NULL_def)
  ultimately show ?thesis
    using h nl r by blast
qed

subsection \<open>The ts field\<close>

text \<open>
  Claim C6: the clock is read once in an emitted call, and the console's conversion
  \<^verbatim>\<open>count() / 1e9\<close> and the file's conversion \<^verbatim>\<open>count() / 1000000000.0\<close> give the same
  value for every count, so that both sinks print the same \<^verbatim>\<open>ts\<close> field. The two
  literals have the same value, hence denote the same double, and the same division is
  applied to the same count; this holds for any double operations \<open>f\<close>. The lines of
  the call carry \<open>ts_field_console s\<close> and \<open>ts_field_file s\<close>, both computed
  from the one reading \<open>clock_now s\<close>.
\<close>

theorem ts_conversions_agree:
  "ts_console f n = ts_file f n \<and> ts_field_console s = ts_field_file s \<and>
   (\<not> lvl < level (L w) \<and> 0 \<le> lvl \<and> lvl \<le> 5 \<longrightarrow>
      (\<exists>w'. log_log s lvl file line fmt args w = Inr w' \<and>
         count_list (trace w') ClockNow = count_list (trace w) ClockNow + 1 \<and>
         calls_on Stderr (trace w') = calls_on Stderr (trace w) @
           (if quiet (L w) = 0 then [Fprintf Stderr (console_head s lvl file line),
              Fprintf Stderr [newline]] else []) \<and>
         calls_on (File (fp (L w))) (trace w') = calls_on (File (fp (L w))) (trace w) @
           (if fp (L w) \<noteq> NULL then [Fprintf (File (fp (L w))) (file_head s lvl file line),
              Fprintf (File (fp (L w))) [newline], Fflush (File (fp (L w)))] else [])))"
proof -
  have field: "ts_field_console s = ts_field_file s"
    by (simp add: ts_field_console_def ts_field_file_def ts_console_eq_ts_file)
  show ?thesis
    by (simp add: ts_console_eq_ts_file field log_log_emitted count_ClockNow_call_events
        calls_on_append calls_on_call_events calls_on_console_events calls_on_file_events)
      (simp add: console_events_def file_events_def calls_on_def)
qed


theorem ts_conversions_agree_witness:
  "\<not> LOG_INFO < level (L (log_set_fp 3 start)) \<and> 0 \<le> LOG_INFO \<and> LOG_INFO \<le> 5 \<and>
   ts_console exact_fpu 1500000000 = (1500000000, 1000000000) \<and>
   ts_file exact_fpu 1500000000 = (1500000000, 1000000000) \<and>
   ts_field_console sys0 = ''1.500000'' \<and> ts_field_file sys0 = ''1.500000'' \<and>
   (\<exists>w'. log_log sys0 LOG_INFO ''a.cpp'' 7 ''m'' [] (log_set_fp 3 start) = Inr w' \<and>
      count_list (trace w') ClockNow = 1 \<and>
      calls_on Stderr (trace w') =
        [Fprintf Stderr ''12:34:56 INFO  (ts: 1.500000) a.cpp:7: '', Fprintf Stderr [newline]] \<and>
      calls_on (File 3) (trace w') =
        [Fprintf (File 3) ''2026-11-02 12:34:56 INFO  (ts: 1.500000) a.cpp:7: '',
         Fprintf (File 3) [newline], Fflush (File 3)])"
proof -
  let ?w = "log_set_fp 3 start"
  have h: "\<not> LOG_INFO < level (L ?w) \<and> 0 \<le> LOG_INFO \<and> LOG_INFO \<le> 5"
    by (simp add: eval_log)
  have st: "trace ?w = []" "fp (L ?w) = 3" "quiet (L ?w) = 0"
    by (simp_all add: eval_log)
  have c: "ts_console exact_fpu 1500000000 = (1500000000, 1000000000)"
    by (simp add: ts_console_def exact_fpu_def)
  have fc: "ts_field_console sys0 = ''1.500000''"
    by (simp add: sys0_def eval_fmt)
  have heads:
    "console_head sys0 LOG_INFO ''a.cpp'' 7 = ''12:34:56 INFO  (ts: 1.500000) a.cpp:7: ''"
    "file_head sys0 LOG_INFO ''a.cpp'' 7 =
       ''2026-11-02 12:34:56 INFO  (ts: 1.500000) a.cpp:7: ''"
    by (simp_all add: console_head_def file_head_def LOG_INFO_def sys0_def eval_fmt)
  note agree = ts_conversions_agree [of exact_fpu 1500000000 sys0 LOG_INFO ?w "''a.cpp''" 7
      "''m''" "[]"]
  from agree c have f: "ts_file exact_fpu 1500000000 = (1500000000, 1000000000)"
    by simp
  from agree fc have ff: "ts_field_file sys0 = ''1.500000''"
    by simp
  from agree h obtain w' where
    "log_log sys0 LOG_INFO ''a.cpp'' 7 ''m'' [] ?w = Inr w'"
    "count_list (trace w') ClockNow = count_list (trace ?w) ClockNow + 1"
    "calls_on Stderr (trace w') = calls_on Stderr (trace ?w) @
       (if quiet (L ?w) = 0 then [Fprintf Stderr (console_head sys0 LOG_INFO ''a.cpp'' 7),
          Fprintf Stderr [newline]] else [])"
    "calls_on (File (fp (L ?w))) (trace w') = calls_on (File (fp (L ?w))) (trace ?w) @
       (if fp (L ?w) \<noteq> NULL then [Fprintf (File (fp (L ?w))) (file_head sys0 LOG_INFO ''a.cpp'' 7),
          Fprintf (File (fp (L ?w))) [newline], Fflush (File (fp (L ?w)))] else [])"
    by blast
  then have "log_log sys0 LOG_INFO ''a.cpp'' 7 ''m'' [] ?w = Inr w' \<and>
      count_list (trace w') ClockNow = 1 \<and>
      calls_on Stderr (trace w') =
        [Fprintf Stderr ''12:34:56 INFO  (ts: 1.500000) a.cpp:7: '', Fprintf Stderr [newline]] \<and>
      calls_on (File 3) (trace w') =
        [Fprintf (File 3) ''2026-11-02 12:34:56 INFO  (ts: 1.500000) a.cpp:7: '',
         Fprintf (File 3) [newline], Fflush (File 3)]"
    by (simp add: st heads NULL_def calls_on_def)
  with h c f fc ff show ?thesis
    by blast
qed


subsection \<open>The start state\<close>

text \<open>
  Claim C7: before any configuration call the state holds the defaults: the threshold is
  \<^verbatim>\<open>LOG_TRACE\<close>, so that no level from 0 upwards is suppressed, quiet is off, and there is
  no file sink, no lock hook and no user data. The logger emits at once: a call at any of
  the six levels in the start state writes its console line.
\<close>

theorem L_init_defaults:
  "level L_init = LOG_TRACE \<and> quiet L_init = 0 \<and> fp L_init = NULL \<and> lock L_init = NULL \<and>
   udata L_init = NULL \<and>
   (0 \<le> lvl \<longrightarrow> \<not> lvl < level L_init) \<and>
   (0 \<le> lvl \<and> lvl \<le> 5 \<longrightarrow>
      log_log s lvl file line fmt args start =
        Inr \<lparr>L = L_init, trace = [ClockNow, MutexAcquire, Time, Localtime,
          Fprintf Stderr (console_head s lvl file line), Fprintf Stderr [newline],
          MutexRelease]\<rparr>)"
proof -
  have "log_log s lvl file line fmt args start =
        Inr \<lparr>L = L_init, trace = [ClockNow, MutexAcquire, Time, Localtime,
          Fprintf Stderr (console_head s lvl file line), Fprintf Stderr [newline],
          MutexRelease]\<rparr>" if "0 \<le> lvl" and "lvl \<le> 5"
  proof -
    have "\<not> lvl < level (L start)"
      using that by (simp add: start_def L_init_def)
    from log_log_emitted [OF this that] show ?thesis
      by (simp add: start_def L_init_def call_events_def hook_events_def console_events_def
          file_events_def)
  qed
  then show ?thesis
    by (simp add: L_init_def LOG_TRACE_def)
qed

theorem L_init_defaults_witness:
  "0 \<le> LOG_FATAL \<and> LOG_FATAL \<le> 5 \<and>
   level L_init = LOG_TRACE \<and> quiet L_init = 0 \<and> fp L_init = NULL \<and> lock L_init = NULL \<and>
   udata L_init = NULL \<and> \<not> LOG_FATAL < level L_init \<and>
   log_log sys0 LOG_FATAL ''b.cpp'' 1 ''hello'' [] start =
     Inr \<lparr>L = L_init, trace = [ClockNow, MutexAcquire, Time, Localtime,
       Fprintf Stderr ''12:34:56 FATAL (ts: 1.500000) b.cpp:1: '', Fprintf Stderr [newline],
       MutexRelease]\<rparr>"
  using L_init_defaults [of LOG_FATAL sys0 "''b.cpp''" 1 "''hello''" "[]"]
  by (simp add: LOG_FATAL_def console_head_def sys0_def eval_fmt)

subsection \<open>The setters\<close>

text \<open>
  Claim C8: each of the setters \<^verbatim>\<open>log_set_udata\<close>, \<^verbatim>\<open>log_set_lock\<close>, \<^verbatim>\<open>log_set_fp\<close>,
  \<^verbatim>\<open>log_set_level\<close> and \<^verbatim>\<open>log_set_quiet\<close> changes its own field of \<^verbatim>\<open>L\<close> and no other,
  makes no call to the outside (the trace is unchanged, so there is no I/O), and cannot
  fail. \<^verbatim>\<open>log_set_fp\<close> installs the new handle over a previous one without any call on
  the previous one: it is not closed.
\<close>

theorem setters_frame:
  "udata (L (log_set_udata u w)) = u \<and> lock (L (log_set_udata u w)) = lock (L w) \<and>
   fp (L (log_set_udata u w)) = fp (L w) \<and> level (L (log_set_udata u w)) = level (L w) \<and>
   quiet (L (log_set_udata u w)) = quiet (L w) \<and> trace (log_set_udata u w) = trace w \<and>
   udata (L (log_set_lock fn w)) = udata (L w) \<and> lock (L (log_set_lock fn w)) = fn \<and>
   fp (L (log_set_lock fn w)) = fp (L w) \<and> level (L (log_set_lock fn w)) = level (L w) \<and>
   quiet (L (log_set_lock fn w)) = quiet (L w) \<and> trace (log_set_lock fn w) = trace w \<and>
   udata (L (log_set_fp p w)) = udata (L w) \<and> lock (L (log_set_fp p w)) = lock (L w) \<and>
   fp (L (log_set_fp p w)) = p \<and> level (L (log_set_fp p w)) = level (L w) \<and>
   quiet (L (log_set_fp p w)) = quiet (L w) \<and> trace (log_set_fp p w) = trace w \<and>
   udata (L (log_set_level lvl w)) = udata (L w) \<and> lock (L (log_set_level lvl w)) = lock (L w) \<and>
   fp (L (log_set_level lvl w)) = fp (L w) \<and> level (L (log_set_level lvl w)) = lvl \<and>
   quiet (L (log_set_level lvl w)) = quiet (L w) \<and> trace (log_set_level lvl w) = trace w \<and>
   udata (L (log_set_quiet e w)) = udata (L w) \<and> lock (L (log_set_quiet e w)) = lock (L w) \<and>
   fp (L (log_set_quiet e w)) = fp (L w) \<and> level (L (log_set_quiet e w)) = level (L w) \<and>
   trace (log_set_quiet e w) = trace w \<and>
   fp (L (log_set_fp p (log_set_fp p' w))) = p \<and>
   trace (log_set_fp p (log_set_fp p' w)) = trace w \<and>
   (is_setter c \<longrightarrow> (\<exists>w'. step c w = Inr w' \<and> trace w' = trace w))"
proof -
  have "\<exists>w'. step c w = Inr w' \<and> trace w' = trace w" if "is_setter c"
    using that
    by (cases c)
      (simp_all add: log_set_udata_def log_set_lock_def log_set_fp_def log_set_level_def
        log_set_quiet_def)
  then show ?thesis
    by (simp add: log_set_udata_def log_set_lock_def log_set_fp_def log_set_level_def
        log_set_quiet_def)
qed

theorem setters_frame_witness:
  "is_setter (Set_fp 4 :: unit call) \<and>
   step (Set_fp 4 :: unit call) (log_set_fp 3 start) =
     Inr \<lparr>L = \<lparr>udata = 0, lock = 0, fp = 4, level = 0, quiet = 0\<rparr>, trace = []\<rparr> \<and>
   fp (L (log_set_fp 4 (log_set_fp 3 start))) = 4 \<and>
   trace (log_set_fp 4 (log_set_fp 3 start)) = trace start"
  using setters_frame [of 0 start 0 4 0 0 3 "Set_fp 4 :: unit call"]
  by (simp add: eval_log)

subsection \<open>The quiet flag\<close>

text \<open>
  Claim C10: \<^verbatim>\<open>log_set_quiet(e)\<close> stores 1 when \<open>e\<close> is not zero and 0 when it is, no
  other operation writes \<^verbatim>\<open>L.quiet\<close>, and so after any sequence of operations from the
  zero-initialised start state \<^verbatim>\<open>L.quiet\<close> is 0 or 1.
\<close>

theorem quiet_invariant:
  "quiet (L (log_set_quiet e w)) = (if e = 0 then 0 else 1) \<and>
   (run cs start = Inr w' \<longrightarrow> quiet (L w') = 0 \<or> quiet (L w') = 1) \<and>
   (\<not> is_set_quiet c \<and> step c w = Inr w'' \<longrightarrow> quiet (L w'') = quiet (L w))"
proof -
  have "quiet_ok start"
    by (simp add: quiet_ok_def start_def L_init_def)
  then have "run cs start = Inr w' \<longrightarrow> quiet_ok w'"
    using run_quiet_ok by blast
  then show ?thesis
    using step_keeps_quiet [of c w w'']
    by (simp add: quiet_ok_def log_set_quiet_def)
qed

theorem quiet_invariant_witness:
  "run [Set_quiet 7, Log sys0 LOG_INFO ''a.cpp'' 3 ''m'' [], Set_level 2] start =
     Inr \<lparr>L = \<lparr>udata = 0, lock = 0, fp = 0, level = 2, quiet = 1\<rparr>,
       trace = [ClockNow, MutexAcquire, Time, Localtime, MutexRelease]\<rparr> \<and>
   quiet (L (log_set_quiet 7 start)) = 1 \<and>
   \<not> is_set_quiet (Set_level 2 :: (int \<times> int) call) \<and>
   step (Set_level 2 :: (int \<times> int) call) (log_set_quiet 7 start) =
     Inr \<lparr>L = \<lparr>udata = 0, lock = 0, fp = 0, level = 2, quiet = 1\<rparr>, trace = []\<rparr>"
  using quiet_invariant [of 7 start
      "[Set_quiet 7, Log sys0 LOG_INFO ''a.cpp'' 3 ''m'' [], Set_level 2]"
      "\<lparr>L = \<lparr>udata = 0, lock = 0, fp = 0, level = 2, quiet = 1\<rparr>,
         trace = [ClockNow, MutexAcquire, Time, Localtime, MutexRelease]\<rparr>"
      "Set_level 2 :: (int \<times> int) call"
      "\<lparr>L = \<lparr>udata = 0, lock = 0, fp = 0, level = 2, quiet = 1\<rparr>, trace = []\<rparr>"]
  by (simp add: eval_log)

subsection \<open>Indexing the tables\<close>

text \<open>
  Claim C9, as stated: every call with a level of 6 or more that passes the threshold
  check reads outside a table. This fails when both sinks are off: with quiet set and no
  file sink, \<^verbatim>\<open>log_log(6, ...)\<close> passes the threshold check, indexes no table and
  returns.
\<close>

theorem level_six_quiet_no_access:
  "(6::int) \<ge> 6 \<and> \<not> 6 < level (L (log_set_quiet 1 start)) \<and>
   log_log sys0 6 ''a.cpp'' 1 ''m'' [] (log_set_quiet 1 start) =
     Inr \<lparr>L = L_init\<lparr>quiet := 1\<rparr>,
          trace = [ClockNow, MutexAcquire, Time, Localtime, MutexRelease]\<rparr>"
  by (simp add: eval_log)

text \<open>
  Claim C9, amended: indexing \<^verbatim>\<open>level_names\<close> (and \<^verbatim>\<open>level_colors\<close>) by the level is in
  bounds exactly when the level is one of 0 to 5; for such a level no call of \<^verbatim>\<open>log_log\<close>
  reads outside a table; a call with a level outside 0 to 5 that passes the
  threshold check reads outside a table when a sink is active (quiet is off or a file
  sink is set), and reads no table and returns when quiet is on and no file sink is set.
\<close>

theorem level_index_bounds:
  "((\<exists>name. index level_names lvl = Inr name) \<longleftrightarrow> 0 \<le> lvl \<and> lvl \<le> 5) \<and>
   ((\<exists>color. index level_colors lvl = Inr color) \<longleftrightarrow> 0 \<le> lvl \<and> lvl \<le> 5) \<and>
   (0 \<le> lvl \<and> lvl \<le> 5 \<longrightarrow> (\<exists>w'. log_log s lvl file line fmt args w = Inr w')) \<and>
   ((lvl < 0 \<or> 6 \<le> lvl) \<and> \<not> lvl < level (L w) \<and> (quiet (L w) = 0 \<or> fp (L w) \<noteq> NULL) \<longrightarrow>
      log_log s lvl file line fmt args w = Inl OutOfBounds) \<and>
   ((lvl < 0 \<or> 6 \<le> lvl) \<and> \<not> lvl < level (L w) \<and> quiet (L w) \<noteq> 0 \<and> fp (L w) = NULL \<longrightarrow>
      (\<exists>w'. log_log s lvl file line fmt args w = Inr w'))"
proof -
  have names: "(\<exists>name. index level_names lvl = Inr name) \<longleftrightarrow> 0 \<le> lvl \<and> lvl \<le> 5"
    by (auto simp add: index_def level_names_def)
  have colors: "(\<exists>color. index level_colors lvl = Inr color) \<longleftrightarrow> 0 \<le> lvl \<and> lvl \<le> 5"
    by (auto simp add: index_def level_colors_def)
  have inside: "\<exists>w'. log_log s lvl file line fmt args w = Inr w'" if "0 \<le> lvl" "lvl \<le> 5"
  proof (cases "lvl < level (L w)")
    case True
    then show ?thesis by (simp add: log_log_below)
  next
    case False
    with that show ?thesis by (simp add: log_log_emitted)
  qed
  have outside: "log_log s lvl file line fmt args w =
    (if quiet (L w) = 0 \<or> fp (L w) \<noteq> NULL then Inl OutOfBounds
     else Inr (w\<lparr>trace := trace w @ [ClockNow, MutexAcquire] @ hook_events (L w) 1
       @ [Time, Localtime] @ hook_events (L w) 0 @ [MutexRelease]\<rparr>))"
    if "lvl < 0 \<or> 6 \<le> lvl" "\<not> lvl < level (L w)"
    using that by (intro log_log_out_of_range) auto
  show ?thesis
    using names colors inside outside by auto
qed

theorem level_index_bounds_witness:
  "0 \<le> LOG_FATAL \<and> LOG_FATAL \<le> 5 \<and> (\<exists>name. index level_names LOG_FATAL = Inr name) \<and>
   (\<exists>color. index level_colors LOG_FATAL = Inr color) \<and>
   (\<exists>w'. log_log sys0 LOG_FATAL ''a.cpp'' 1 ''m'' [] start = Inr w') \<and>
   (6::int) \<le> 6 \<and> \<not> 6 < level (L start) \<and> quiet (L start) = 0 \<and>
   log_log sys0 6 ''a.cpp'' 1 ''m'' [] start = Inl OutOfBounds \<and>
   \<not> 6 < level (L (log_set_quiet 1 start)) \<and> quiet (L (log_set_quiet 1 start)) \<noteq> 0 \<and>
   fp (L (log_set_quiet 1 start)) = NULL \<and>
   (\<exists>w'. log_log sys0 6 ''a.cpp'' 1 ''m'' [] (log_set_quiet 1 start) = Inr w')"
  using level_index_bounds [of LOG_FATAL sys0 "''a.cpp''" 1 "''m''" "[]" start]
    level_index_bounds [of 6 sys0 "''a.cpp''" 1 "''m''" "[]" start]
    level_index_bounds [of 6 sys0 "''a.cpp''" 1 "''m''" "[]" "log_set_quiet 1 start"]
  by (simp add: LOG_FATAL_def start_def L_init_def NULL_def log_set_quiet_def)

end
